theory Spec2Isabelle
  imports Main
begin

section \<open>Python strings and the built-ins the retrieval pipeline uses\<close>

text \<open>
  The module \<^verbatim>\<open>src/skewtpy/wyoming.py\<close> works on Python \<^verbatim>\<open>str\<close> values: sequences of
  Unicode code points. A code point is modelled as a natural number and a string as a
  list of them, so that \<^verbatim>\<open>len\<close> counts what Python counts. Literals of the source are
  written with \<open>lit\<close>.
\<close>

type_synonym ustr = "nat list"

definition lit :: "string \<Rightarrow> ustr" where
  "lit s = map of_char s"

text \<open>
  The characters Python treats as whitespace in \<^verbatim>\<open>str.strip()\<close>, \<^verbatim>\<open>str.split()\<close> and in the
  regular-expression class \<^verbatim>\<open>\s\<close> of a \<^verbatim>\<open>str\<close> pattern (tab to carriage return, the four
  information separators, space, NEL, no-break space and the Unicode space separators).
\<close>

definition is_space :: "nat \<Rightarrow> bool" where
  "is_space c \<longleftrightarrow>
     (9 \<le> c \<and> c \<le> 13) \<or> (28 \<le> c \<and> c \<le> 32) \<or> c = 133 \<or> c = 160 \<or> c = 5760 \<or>
     (8192 \<le> c \<and> c \<le> 8202) \<or> c = 8232 \<or> c = 8233 \<or> c = 8239 \<or> c = 8287 \<or> c = 12288"

text \<open>
  The line boundaries of \<^verbatim>\<open>str.splitlines()\<close>: LF, VT, FF, CR, FS, GS, RS, NEL, LINE
  SEPARATOR and PARAGRAPH SEPARATOR (CR LF counts once).
\<close>

definition is_linebreak :: "nat \<Rightarrow> bool" where
  "is_linebreak c \<longleftrightarrow>
     (10 \<le> c \<and> c \<le> 13) \<or> (28 \<le> c \<and> c \<le> 30) \<or> c = 133 \<or> c = 8232 \<or> c = 8233"

text \<open>\<^verbatim>\<open>s.strip()\<close>: whitespace removed at both ends.\<close>

definition py_strip :: "ustr \<Rightarrow> ustr" where
  "py_strip s = rev (dropWhile is_space (rev (dropWhile is_space s)))"

text \<open>
  \<^verbatim>\<open>s.splitlines()\<close>: the lines without their boundaries; a text that ends with a boundary
  has no empty last line, and the empty text has no line.
\<close>

fun cons_line :: "nat \<Rightarrow> ustr list \<Rightarrow> ustr list" where
  "cons_line c [] = [[c]]"
| "cons_line c (l # ls) = (c # l) # ls"

fun py_splitlines :: "ustr \<Rightarrow> ustr list" where
  "py_splitlines [] = []"
| "py_splitlines [c] = (if is_linebreak c then [[]] else [[c]])"
| "py_splitlines (c # d # cs) =
     (if c = 13 \<and> d = 10 then [] # py_splitlines cs
      else if is_linebreak c then [] # py_splitlines (d # cs)
      else cons_line c (py_splitlines (d # cs)))"

text \<open>\<^verbatim>\<open>s.split()\<close>: the maximal runs of non-whitespace characters, in order.\<close>

fun py_split :: "ustr \<Rightarrow> ustr list" where
  "py_split [] = []"
| "py_split [c] = (if is_space c then [] else [[c]])"
| "py_split (c # d # cs) =
     (if is_space c then py_split (d # cs)
      else if is_space d then [c] # py_split (d # cs)
      else cons_line c (py_split (d # cs)))"

text \<open>\<^verbatim>\<open>sep.join(xs)\<close>.\<close>

fun py_join :: "ustr \<Rightarrow> ustr list \<Rightarrow> ustr" where
  "py_join sep [] = []"
| "py_join sep [x] = x"
| "py_join sep (x # y # ys) = x @ sep @ py_join sep (y # ys)"

text \<open>\<^verbatim>\<open>needle in haystack\<close> on strings: the needle occurs as a contiguous substring.\<close>

fun starts_with :: "ustr \<Rightarrow> ustr \<Rightarrow> bool" where
  "starts_with [] s = True"
| "starts_with (p # ps) [] = False"
| "starts_with (p # ps) (c # cs) = (p = c \<and> starts_with ps cs)"

fun py_in :: "ustr \<Rightarrow> ustr \<Rightarrow> bool" where
  "py_in needle [] = (needle = [])"
| "py_in needle (c # cs) = (starts_with needle (c # cs) \<or> py_in needle cs)"

text \<open>
  Exceptions are values. The three \<^verbatim>\<open>ValueError\<close>s of the module carry their message; the
  list access \<^verbatim>\<open>lines[i]\<close> raises \<^verbatim>\<open>IndexError\<close> out of range.
\<close>

datatype exn = ValueError string | IndexError | AttributeError

text \<open>\<^verbatim>\<open>xs[i]\<close> with Python's negative indices, and the slice \<^verbatim>\<open>xs[i:]\<close>.\<close>

definition py_index :: "'a list \<Rightarrow> int \<Rightarrow> exn + 'a" where
  "py_index xs i =
     (if 0 \<le> i \<and> i < int (length xs) then Inr (xs ! nat i)
      else if i < 0 \<and> - int (length xs) \<le> i then Inr (xs ! nat (int (length xs) + i))
      else Inl IndexError)"

definition py_slice_from :: "'a list \<Rightarrow> int \<Rightarrow> 'a list" where
  "py_slice_from xs i =
     (let n = int (length xs); j = (if i < 0 then max (n + i) 0 else min i n)
      in drop (nat j) xs)"

text \<open>
  Integer formatting: \<^verbatim>\<open>str(n)\<close> (what \<^verbatim>\<open>f"{n}"\<close> gives) and the format specification
  \<^verbatim>\<open>02d\<close>, in general \<^verbatim>\<open>0wd\<close>: zero fill after the sign up to a total width of \<open>w\<close>.
\<close>

fun digits :: "nat \<Rightarrow> ustr" where
  "digits n = (if n < 10 then [48 + n] else digits (n div 10) @ [48 + n mod 10])"

declare digits.simps [simp del]

definition py_str_int :: "int \<Rightarrow> ustr" where
  "py_str_int n = (if n < 0 then 45 # digits (nat (- n)) else digits (nat n))"

definition zero_fill :: "nat \<Rightarrow> ustr \<Rightarrow> ustr" where
  "zero_fill w ds = replicate (w - length ds) 48 @ ds"

definition py_format_0wd :: "nat \<Rightarrow> int \<Rightarrow> ustr" where
  "py_format_0wd w n =
     (if n < 0 then 45 # zero_fill (w - 1) (digits (nat (- n))) else zero_fill w (digits (nat n)))"

section \<open>The two regular expressions\<close>

text \<open>
  \<^verbatim>\<open>re.match(r"^\s*-{5,}\s*$", ln)\<close>: whitespace, then at least five dashes, then whitespace
  up to the end. A dash is no whitespace, so the three runs are determined: the leading
  whitespace, the dashes after it, and a rest that must be all whitespace.
\<close>

definition is_dash :: "nat \<Rightarrow> bool" where
  "is_dash c \<longleftrightarrow> c = 45"

definition re_match_separator :: "ustr \<Rightarrow> bool" where
  "re_match_separator ln =
     (let r = dropWhile is_space ln
      in 5 \<le> length (takeWhile is_dash r) \<and> list_all is_space (dropWhile is_dash r))"

text \<open>
  \<^verbatim>\<open>re.search(r"<pre[^>]*>(.*?)</pre>", text, flags=re.DOTALL | re.IGNORECASE)\<close>, returning
  group 1. Under \<^verbatim>\<open>IGNORECASE\<close> the letters p, r and e match their upper-case forms and
  nothing else. At a start position the match reads \<^verbatim>\<open><pre\<close> and then runs to the first \<^verbatim>\<open>>\<close>:
  since \<^verbatim>\<open>[^>]*\<close> cannot cross a \<^verbatim>\<open>>\<close>, backtracking has no other choice. The lazy group
  \<^verbatim>\<open>(.*?)\<close> then ends at the first closing tag after it; with \<^verbatim>\<open>DOTALL\<close> it crosses line
  breaks. The search tries the start positions from left to right.
\<close>

definition lower_ascii :: "nat \<Rightarrow> nat" where
  "lower_ascii c = (if 65 \<le> c \<and> c \<le> 90 then c + 32 else c)"

fun match_ci :: "ustr \<Rightarrow> ustr \<Rightarrow> bool" where
  "match_ci [] s = True"
| "match_ci (p # ps) [] = False"
| "match_ci (p # ps) (c # cs) = (lower_ascii c = p \<and> match_ci ps cs)"

fun skip_to_gt :: "ustr \<Rightarrow> ustr option" where
  "skip_to_gt [] = None"
| "skip_to_gt (c # cs) = (if c = 62 then Some cs else skip_to_gt cs)"

fun lazy_until_close :: "ustr \<Rightarrow> ustr option" where
  "lazy_until_close [] = None"
| "lazy_until_close (c # cs) =
     (if match_ci (lit ''</pre>'') (c # cs) then Some []
      else map_option (Cons c) (lazy_until_close cs))"

definition match_pre_at :: "ustr \<Rightarrow> ustr option" where
  "match_pre_at s =
     (if match_ci (lit ''<pre'') s
      then (case skip_to_gt (drop 4 s) of None \<Rightarrow> None | Some r \<Rightarrow> lazy_until_close r)
      else None)"

fun re_search_pre :: "ustr \<Rightarrow> ustr option" where
  "re_search_pre [] = None"
| "re_search_pre (c # cs) =
     (case match_pre_at (c # cs) of Some g \<Rightarrow> Some g | None \<Rightarrow> re_search_pre cs)"

section \<open>The availability probe: \<^verbatim>\<open>sounding_exists\<close>\<close>

text \<open>
  The \<^verbatim>\<open>requests\<close> library is outside the repository. Of a response the module reads the
  text and calls \<^verbatim>\<open>raise_for_status()\<close>. That method raises \<^verbatim>\<open>HTTPError\<close> (a
  \<^verbatim>\<open>RequestException\<close>) when the status code is a client or server error, from 400 to 599,
  and returns for every other code; \<open>status_error\<close> says whether it raises.
  \<^verbatim>\<open>requests.get\<close> itself either raises a \<^verbatim>\<open>RequestException\<close> (time-out, DNS, connection
  reset) or returns a response.

  The network is a parameter: \<open>srv n url timeout\<close> is what the \<open>n\<close>-th request issued so far
  gets. The state threaded through the calls is the log of the requests issued.
\<close>

record response =
  status_code :: int
  resp_text :: ustr

definition status_error :: "response \<Rightarrow> bool" where
  "status_error r \<longleftrightarrow> 400 \<le> status_code r \<and> status_code r < 600"

datatype get_result = RequestException | Response response

type_synonym request = "ustr \<times> int"

type_synonym server = "nat \<Rightarrow> ustr \<Rightarrow> int \<Rightarrow> get_result"

definition requests_get :: "server \<Rightarrow> ustr \<Rightarrow> int \<Rightarrow> request list \<Rightarrow> get_result \<times> request list" where
  "requests_get srv url timeout log = (srv (length log) url timeout, log @ [(url, timeout)])"

text \<open>Lines 42 to 55. The result is the pair \<^verbatim>\<open>(exists, response)\<close>, \<^verbatim>\<open>None\<close> being \<open>None\<close>.\<close>

definition sounding_exists ::
  "server \<Rightarrow> ustr \<Rightarrow> int \<Rightarrow> request list \<Rightarrow> (bool \<times> response option) \<times> request list" where
  "sounding_exists srv url timeout log =
     (case requests_get srv url timeout log of
        (RequestException, log') \<Rightarrow> ((False, None), log')
      | (Response r, log') \<Rightarrow>
          if status_error r then ((False, None), log')
          else if py_in (lit ''Can't get'') (resp_text r) \<or>
                  py_in (lit ''No data available'') (resp_text r)
            then ((False, Some r), log')
          else if length (py_strip (resp_text r)) < 200 then ((False, Some r), log')
          else ((True, Some r), log'))"

section \<open>Retrieval and parsing: \<^verbatim>\<open>get_wyoming_sounding\<close>\<close>

text \<open>Lines 129 to 136: the request URL.\<close>

definition build_url :: "int \<Rightarrow> int \<Rightarrow> int \<Rightarrow> int \<Rightarrow> int \<Rightarrow> ustr \<Rightarrow> ustr" where
  "build_url year month day hour station region =
     (let month' = py_format_0wd 2 month;
          ddhh = py_format_0wd 2 day @ py_format_0wd 2 hour
      in lit ''https://weather.uwyo.edu/cgi-bin/sounding?'' @
         lit ''region='' @ region @ lit ''&TYPE=TEXT%3ALIST&YEAR='' @ py_str_int year @
         lit ''&MONTH='' @ month' @
         lit ''&FROM='' @ ddhh @ lit ''&TO='' @ ddhh @ lit ''&STNM='' @ py_str_int station)"

text \<open>
  Lines 155 to 161: the header line, the units line and where the data start. The header
  access is not guarded; the two accesses after it are.
\<close>

definition split_header :: "ustr list \<Rightarrow> int \<Rightarrow> exn + (ustr \<times> ustr \<times> int)" where
  "split_header lines header_idx =
     (case py_index lines header_idx of
        Inl e \<Rightarrow> Inl e
      | Inr hl \<Rightarrow>
          (case (if header_idx + 1 < int (length lines)
                 then map_sum id py_strip (py_index lines (header_idx + 1))
                 else Inr []) of
             Inl e \<Rightarrow> Inl e
           | Inr units_line \<Rightarrow>
               (let data_start = header_idx + 2
                in case (if data_start < int (length lines)
                         then map_sum id re_match_separator (py_index lines data_start)
                         else Inr False) of
                     Inl e \<Rightarrow> Inl e
                   | Inr sep \<Rightarrow>
                       Inr (py_strip hl, units_line,
                            if sep then data_start + 1 else data_start))))"

text \<open>Lines 165 to 172: the cut at the first line that contains a stop marker.\<close>

definition stop_markers :: "ustr list" where
  "stop_markers = [lit ''###'', lit ''Station information'', lit ''Observations'']"

definition has_stop_marker :: "ustr \<Rightarrow> bool" where
  "has_stop_marker ln = list_ex (\<lambda>mk. py_in mk ln) stop_markers"

fun find_cut :: "nat \<Rightarrow> ustr list \<Rightarrow> nat option" where
  "find_cut i [] = None"
| "find_cut i (ln # rest) = (if has_stop_marker ln then Some i else find_cut (Suc i) rest)"

definition truncate_at_stop :: "ustr list \<Rightarrow> ustr list" where
  "truncate_at_stop data_lines =
     (case find_cut 0 data_lines of None \<Rightarrow> data_lines | Some cut_idx \<Rightarrow> take cut_idx data_lines)"

text \<open>Lines 174 to 177: blank lines and separator lines are dropped.\<close>

definition keep_data_line :: "ustr \<Rightarrow> bool" where
  "keep_data_line ln \<longleftrightarrow> py_strip ln \<noteq> [] \<and> \<not> re_match_separator ln"

definition select_data_lines :: "ustr list \<Rightarrow> ustr list" where
  "select_data_lines data_lines = filter keep_data_line (truncate_at_stop data_lines)"

text \<open>
  The table. \<^verbatim>\<open>pandas\<close> is outside the repository; the module gives \<^verbatim>\<open>read_fwf\<close> the data text
  and the column names and sets \<^verbatim>\<open>attrs["units"]\<close> on what it returns. A row is kept as the
  text of its line: how the reader cuts a line into fields and converts them is not
  modelled, and neither are errors the reader itself may raise.
\<close>

record data_frame =
  columns :: "ustr list"
  rows :: "ustr list"
  attrs :: "string \<rightharpoonup> ustr"

text \<open>The lines a reader sees in \<^verbatim>\<open>StringIO(data_text)\<close>: split at LF only.\<close>

fun io_lines :: "ustr \<Rightarrow> ustr list" where
  "io_lines [] = []"
| "io_lines (c # cs) = (if c = 10 then [] # io_lines cs else cons_line c (io_lines cs))"

text \<open>
  Modelled from the spec: \<^verbatim>\<open>pandas.read_fwf(StringIO(data_text), header=None, names=colnames)\<close>,
  a library function. The spec's step h parses each data line as one fixed-width row under
  the given column names; the model keeps one row per line of the text.
\<close>

definition read_fwf :: "ustr \<Rightarrow> ustr list \<Rightarrow> data_frame" where
  "read_fwf data_text colnames =
     \<lparr>columns = colnames, rows = io_lines data_text, attrs = Map.empty\<rparr>"

text \<open>Lines 143 to 188: from the response text to the table.\<close>

definition parse_response :: "ustr \<Rightarrow> int \<Rightarrow> exn + data_frame" where
  "parse_response body header_idx =
     (case re_search_pre body of
        None \<Rightarrow> Inl (ValueError ''No <pre> block found in response.'')
      | Some pre_block \<Rightarrow>
          (case split_header (py_splitlines pre_block) header_idx of
             Inl e \<Rightarrow> Inl e
           | Inr (header_line, units_line, data_start) \<Rightarrow>
               (let data_lines =
                      select_data_lines (py_slice_from (py_splitlines pre_block) data_start);
                    data_text = py_strip (py_join [10] data_lines)
                in if data_text = [] then Inl (ValueError ''No data rows found.'')
                   else (let colnames = py_split header_line;
                             df = read_fwf data_text colnames
                         in Inr (df\<lparr>attrs := (attrs df)(''units'' \<mapsto> units_line)\<rparr>)))))"

text \<open>
  Lines 129 to 188, the whole call. \<^verbatim>\<open>sounding_exists(url)\<close> runs with its default time-out
  of 30 seconds. When \<^verbatim>\<open>exists\<close> holds the response is never \<^verbatim>\<open>None\<close>; reading \<^verbatim>\<open>None.text\<close> would
  raise \<^verbatim>\<open>AttributeError\<close>, which is kept as a branch.
\<close>

definition get_wyoming_sounding ::
  "server \<Rightarrow> int \<Rightarrow> int \<Rightarrow> int \<Rightarrow> int \<Rightarrow> int \<Rightarrow> ustr \<Rightarrow> int \<Rightarrow> request list
     \<Rightarrow> (exn + data_frame) \<times> request list" where
  "get_wyoming_sounding srv year month day hour station region header_idx log =
     (case sounding_exists srv (build_url year month day hour station region) 30 log of
        ((exists, response), log') \<Rightarrow>
          if \<not> exists
          then (Inl (ValueError ''Sounding not available for this datetime/station.''), log')
          else (case response of
                  None \<Rightarrow> (Inl AttributeError, log')
                | Some r \<Rightarrow> (parse_response (resp_text r) header_idx, log')))"

section \<open>The vocabulary of the specification\<close>

text \<open>
  The specification speaks of a text that contains a phrase, of blank lines, of separator
  lines (five or more dashes, optionally surrounded by whitespace, nothing else) and of
  lines that contain a stop marker. These predicates follow its words; the theorems below
  relate them to what the code computes.
\<close>

definition occurs :: "ustr \<Rightarrow> ustr \<Rightarrow> bool" where
  "occurs s t \<longleftrightarrow> (\<exists>p q. t = p @ s @ q)"

definition blank_line :: "ustr \<Rightarrow> bool" where
  "blank_line l \<longleftrightarrow> list_all is_space l"

definition dash_rule :: "ustr \<Rightarrow> bool" where
  "dash_rule l \<longleftrightarrow>
     (\<exists>a n b. l = a @ replicate n 45 @ b \<and> 5 \<le> n \<and> list_all is_space a \<and> list_all is_space b)"

definition stop_line :: "ustr \<Rightarrow> bool" where
  "stop_line l \<longleftrightarrow>
     occurs (lit ''###'') l \<or> occurs (lit ''Station information'') l \<or>
     occurs (lit ''Observations'') l"


text \<open>A number written with exactly two, and with exactly four, decimal digits.\<close>

definition two_digits :: "int \<Rightarrow> ustr" where
  "two_digits n = [48 + nat n div 10 mod 10, 48 + nat n mod 10]"

definition four_digits :: "int \<Rightarrow> ustr" where
  "four_digits n =
     [48 + nat n div 1000 mod 10, 48 + nat n div 100 mod 10, 48 + nat n div 10 mod 10,
      48 + nat n mod 10]"

section \<open>Sample pages\<close>

text \<open>
  A page in the layout of the archive: the block opens with an empty line and a rule, the
  column names are on line 2, the units on line 3, a rule on line 4, then the levels. A
  second page carries a one-line block, as an error notice does. Both are longer than 200
  characters and hold neither of the two "no data" phrases.
\<close>

definition sample_lines :: "ustr list" where
  "sample_lines =
     [[],
      lit ''-----------------------------'',
      lit ''   PRES   HGHT   TEMP'',
      lit ''    hPa     m      C'',
      lit ''-----------------------------'',
      lit '' 1000.0     96   26.2'',
      [],
      lit ''  925.0    766   21.4'',
      lit ''Station information and sounding indices'',
      lit ''  850.0   1500   17.0'']"

definition sample_block :: ustr where
  "sample_block =
     [10] @ lit ''-----------------------------'' @ [10] @
     lit ''   PRES   HGHT   TEMP'' @ [10] @
     lit ''    hPa     m      C'' @ [10] @
     lit ''-----------------------------'' @ [10] @
     lit '' 1000.0     96   26.2'' @ [10] @
     [10] @
     lit ''  925.0    766   21.4'' @ [10] @
     lit ''Station information and sounding indices'' @ [10] @
     lit ''  850.0   1500   17.0'' @ [10]"

definition sample_page :: ustr where
  "sample_page =
     lit ''<HTML><TITLE>University of Wyoming - Radiosonde Data</TITLE><BODY>'' @
     lit ''<H2>72672 Observations at 12Z 05 Jan 2020</H2>'' @ [10] @
     lit ''<PRE>'' @ sample_block @ lit ''</PRE>'' @ [10] @
     lit ''<P>Description of the data columns or sounding indices.</P></BODY></HTML>'' @ [10]"

definition sample_table :: data_frame where
  "sample_table =
     \<lparr>columns = [lit ''PRES'', lit ''HGHT'', lit ''TEMP''],
      rows = [lit ''1000.0     96   26.2'', lit ''  925.0    766   21.4''],
      attrs = [''units'' \<mapsto> lit ''hPa     m      C'']\<rparr>"

definition busy_block :: ustr where
  "busy_block = lit ''Sorry, the server is too busy to process your request.''"

definition busy_page :: ustr where
  "busy_page =
     lit ''<HTML><TITLE>University of Wyoming - Radiosonde Data</TITLE><BODY>'' @
     lit ''<H2>72672 Observations at 12Z 05 Jan 2020</H2>'' @ [10] @
     lit ''<PRE>'' @ busy_block @ lit ''</PRE>'' @ [10] @
     lit ''<P>Please try again later or contact the maintainer of this page.</P></BODY></HTML>'' @
     [10]"

definition page_server :: "ustr \<Rightarrow> server" where
  "page_server page = (\<lambda>n url timeout. Response \<lparr>status_code = 200, resp_text = page\<rparr>)"



section \<open>The code's predicates and the specification's\<close>

lemma starts_with_iff: "starts_with s t \<longleftrightarrow> (\<exists>q. t = s @ q)"
  by (induction s t rule: starts_with.induct) auto

lemma py_in_iff: "py_in s t \<longleftrightarrow> occurs s t"
proof (induction t)
  case Nil
  show ?case by (auto simp: occurs_def)
next
  case (Cons c cs)
  show ?case
  proof
    assume "py_in s (c # cs)"
    then consider "starts_with s (c # cs)" | "py_in s cs" by auto
    then show "occurs s (c # cs)"
    proof cases
      case 1
      then obtain q where "c # cs = s @ q" by (auto simp: starts_with_iff)
      then have "c # cs = [] @ s @ q" by simp
      then show ?thesis unfolding occurs_def by blast
    next
      case 2
      with Cons obtain p q where "cs = p @ s @ q" by (auto simp: occurs_def)
      then have "c # cs = (c # p) @ s @ q" by simp
      then show ?thesis unfolding occurs_def by blast
    qed
  next
    assume "occurs s (c # cs)"
    then obtain p q where pq: "c # cs = p @ s @ q" by (auto simp: occurs_def)
    show "py_in s (c # cs)"
    proof (cases p)
      case Nil
      with pq have "starts_with s (c # cs)" by (auto simp: starts_with_iff)
      then show ?thesis by simp
    next
      case (Cons a p')
      with pq have "cs = p' @ s @ q" by simp
      then have "occurs s cs" unfolding occurs_def by blast
      with Cons.IH show ?thesis by simp
    qed
  qed
qed

lemma has_stop_marker_iff: "has_stop_marker l \<longleftrightarrow> stop_line l"
  by (simp add: has_stop_marker_def stop_markers_def stop_line_def py_in_iff)

lemma all_dropWhile_iff: "(\<forall>x\<in>set (dropWhile P xs). P x) \<longleftrightarrow> (\<forall>x\<in>set xs. P x)"
  by (induction xs) auto

lemma py_strip_Nil_iff: "py_strip l = [] \<longleftrightarrow> blank_line l"
  by (simp add: py_strip_def blank_line_def list_all_iff all_dropWhile_iff)

lemma not_space_dash: "\<not> is_space 45"
  by (simp add: is_space_def)

lemma takeWhile_dash: "takeWhile is_dash r = replicate (length (takeWhile is_dash r)) 45"
  by (induction r) (auto simp: is_dash_def)

lemma re_match_separator_iff: "re_match_separator l \<longleftrightarrow> dash_rule l"
proof
  assume m: "re_match_separator l"
  let ?r = "dropWhile is_space l"
  have "l = takeWhile is_space l @ takeWhile is_dash ?r @ dropWhile is_dash ?r" by simp
  then have "l = takeWhile is_space l @ replicate (length (takeWhile is_dash ?r)) 45 @ dropWhile is_dash ?r"
    using takeWhile_dash[of ?r] by simp
  moreover have "list_all is_space (takeWhile is_space l)"
    by (simp add: list_all_iff) (meson set_takeWhileD)
  ultimately show "dash_rule l"
    using m unfolding dash_rule_def re_match_separator_def Let_def by blast
next
  assume "dash_rule l"
  then obtain a n b where l: "l = a @ replicate n 45 @ b" and n: "5 \<le> n"
    and a: "list_all is_space a" and b: "list_all is_space b"
    unfolding dash_rule_def by blast
  from n obtain k where k: "n = Suc k" by (cases n) auto
  have r: "dropWhile is_space l = replicate n 45 @ b"
    using a l k not_space_dash by (simp add: dropWhile_append3 list_all_iff dropWhile_append)
  have nd: "\<forall>c\<in>set b. is_space c" using b by (simp add: list_all_iff)
  have tb: "takeWhile is_dash (replicate n 45 @ b) = replicate n 45 @ takeWhile is_dash b"
    by (simp add: takeWhile_append is_dash_def)
  have db: "dropWhile is_dash (replicate n 45 @ b) = dropWhile is_dash b"
    by (simp add: dropWhile_append is_dash_def)
  have "list_all is_space (dropWhile is_dash b)"
    using nd by (simp add: list_all_iff) (meson set_dropWhileD)
  then show "re_match_separator l"
    unfolding re_match_separator_def Let_def r tb db using n by simp
qed

lemma keep_data_line_iff: "keep_data_line l \<longleftrightarrow> \<not> blank_line l \<and> \<not> dash_rule l"
  by (simp add: keep_data_line_def py_strip_Nil_iff re_match_separator_iff)

lemma find_cut_None: "find_cut i ls = None \<longleftrightarrow> \<not> list_ex has_stop_marker ls"
  by (induction ls arbitrary: i) auto

lemma find_cut_Some: "find_cut i ls = Some k \<Longrightarrow> i \<le> k \<and> take (k - i) ls = takeWhile (\<lambda>l. \<not> has_stop_marker l) ls"
proof (induction ls arbitrary: i)
  case Nil
  then show ?case by simp
next
  case (Cons l ls)
  show ?case
  proof (cases "has_stop_marker l")
    case True
    with Cons.prems show ?thesis by simp
  next
    case False
    with Cons.prems have "find_cut (Suc i) ls = Some k" by simp
    from Cons.IH[OF this] have "Suc i \<le> k" and t: "take (k - Suc i) ls = takeWhile (\<lambda>l. \<not> has_stop_marker l) ls" by auto
    then have "k - i = Suc (k - Suc i)" by arith
    with False t \<open>Suc i \<le> k\<close> show ?thesis by simp
  qed
qed

lemma truncate_at_stop_eq: "truncate_at_stop ls = takeWhile (\<lambda>l. \<not> stop_line l) ls"
proof (cases "find_cut 0 ls")
  case None
  then have "\<forall>l\<in>set ls. \<not> has_stop_marker l" by (simp add: find_cut_None list_ex_iff)
  then have "takeWhile (\<lambda>l. \<not> has_stop_marker l) ls = ls" by (simp add: takeWhile_eq_all_conv)
  then have "takeWhile (\<lambda>l. \<not> stop_line l) ls = ls" by (simp add: has_stop_marker_iff)
  with None show ?thesis by (simp add: truncate_at_stop_def del: takeWhile_eq_all_conv)
next
  case (Some k)
  from find_cut_Some[OF this] show ?thesis
    using Some by (simp add: truncate_at_stop_def has_stop_marker_iff)
qed

lemma select_data_lines_eq:
  "select_data_lines ls = filter (\<lambda>l. \<not> blank_line l \<and> \<not> dash_rule l) (takeWhile (\<lambda>l. \<not> stop_line l) ls)"
  unfolding select_data_lines_def truncate_at_stop_eq
  by (rule filter_cong) (simp_all add: keep_data_line_iff)

section \<open>The availability probe\<close>


section \<open>Truncation at the stop marker and filtering\<close>

text \<open>
  Claim C5. Of the candidate lines, the ones kept are the non-blank, non-separator lines
  before the first line that contains a stop marker (three hash characters, the phrase
  \<^verbatim>\<open>Station information\<close> or the phrase \<^verbatim>\<open>Observations\<close>). That line and everything after it
  is left out, whatever it looks like.
\<close>

theorem stop_marker_truncation:
  "select_data_lines cands =
     filter (\<lambda>l. \<not> blank_line l \<and> \<not> dash_rule l) (takeWhile (\<lambda>l. \<not> stop_line l) cands) \<and>
   (\<forall>before m after.
      cands = before @ m # after \<and> stop_line m \<and> list_all (\<lambda>l. \<not> stop_line l) before \<longrightarrow>
      select_data_lines cands = filter (\<lambda>l. \<not> blank_line l \<and> \<not> dash_rule l) before)"
proof (intro conjI allI impI)
  show "select_data_lines cands =
     filter (\<lambda>l. \<not> blank_line l \<and> \<not> dash_rule l) (takeWhile (\<lambda>l. \<not> stop_line l) cands)"
    by (rule select_data_lines_eq)
next
  fix before m after
  assume a: "cands = before @ m # after \<and> stop_line m \<and> list_all (\<lambda>l. \<not> stop_line l) before"
  then have "takeWhile (\<lambda>l. \<not> stop_line l) cands = before"
    by (simp add: takeWhile_append2 list_all_iff takeWhile_append)
  then show "select_data_lines cands = filter (\<lambda>l. \<not> blank_line l \<and> \<not> dash_rule l) before"
    by (simp add: select_data_lines_eq)
qed

text \<open>The instance for C5: a marker line between two levels and a third one.\<close>

theorem stop_marker_truncation_witness:
  "stop_line (lit ''Station information and sounding indices'') \<and>
   list_all (\<lambda>l. \<not> stop_line l) [lit '' 1000.0     96   26.2'', [], lit ''-------'', lit ''  925.0    766   21.4''] \<and>
   select_data_lines
     ([lit '' 1000.0     96   26.2'', [], lit ''-------'', lit ''  925.0    766   21.4''] @
      lit ''Station information and sounding indices'' # [lit ''  850.0   1500   17.0'']) =
     [lit '' 1000.0     96   26.2'', lit ''  925.0    766   21.4'']"
proof -
  let ?before = "[lit '' 1000.0     96   26.2'', [], lit ''-------'', lit ''  925.0    766   21.4'']"
  let ?m = "lit ''Station information and sounding indices''"
  let ?after = "[lit ''  850.0   1500   17.0'']"
  have m: "stop_line ?m"
    unfolding has_stop_marker_iff[symmetric]
    by (simp add: has_stop_marker_def stop_markers_def lit_def)
  have b: "list_all (\<lambda>l. \<not> stop_line l) ?before"
    unfolding has_stop_marker_iff[symmetric]
    by (simp add: has_stop_marker_def stop_markers_def lit_def)
  have k: "filter (\<lambda>l. \<not> blank_line l \<and> \<not> dash_rule l) ?before =
             [lit '' 1000.0     96   26.2'', lit ''  925.0    766   21.4'']"
    unfolding keep_data_line_iff[symmetric]
    by (simp add: keep_data_line_def py_strip_def re_match_separator_def lit_def
        is_space_def is_dash_def)
  have "select_data_lines (?before @ ?m # ?after) =
          filter (\<lambda>l. \<not> blank_line l \<and> \<not> dash_rule l) ?before"
    using stop_marker_truncation[of "?before @ ?m # ?after"] m b by blast
  with m b k show ?thesis by (simp only: simp_thms)
qed

section \<open>Lines of the block and lines of the data text\<close>

lemma cons_line_set: "l \<in> set (cons_line c ls) \<Longrightarrow> l = [c] \<or> (\<exists>l'. l = c # l' \<and> l' \<in> set ls) \<or> l \<in> set ls"
  by (cases ls) auto

lemma splitlines_no_break:
  "l \<in> set (py_splitlines s) \<Longrightarrow> x \<in> set l \<Longrightarrow> \<not> is_linebreak x"
proof (induction s arbitrary: l rule: py_splitlines.induct)
  case 1
  then show ?case by simp
next
  case (2 c)
  then show ?case by (auto split: if_splits)
next
  case (3 c d cs)
  show ?case
  proof (cases "c = 13 \<and> d = 10")
    case True
    with 3 show ?thesis by auto
  next
    case nrn: False
    show ?thesis
    proof (cases "is_linebreak c")
      case True
      with nrn 3 show ?thesis by auto
    next
      case False
      with nrn "3.prems" have "l \<in> set (cons_line c (py_splitlines (d # cs)))" by auto
      from cons_line_set[OF this] False nrn "3.IH"(3) "3.prems"(2) show ?thesis
        by auto
    qed
  qed
qed

lemma cons_line_neq_Nil: "cons_line c ls \<noteq> []"
  by (cases ls) auto

lemma io_lines_Nil_iff: "io_lines s = [] \<longleftrightarrow> s = []"
  by (cases s) (auto simp: cons_line_neq_Nil)

lemma length_cons_line: "length (cons_line c ls) = (if ls = [] then 1 else length ls)"
  by (cases ls) auto

lemma length_io_lines:
  "length (io_lines s) =
     length (filter (\<lambda>c. c = 10) s) + (if s = [] \<or> last s = 10 then 0 else 1)"
  by (induction s) (auto simp: length_cons_line io_lines_Nil_iff)

lemma filter_lf_join:
  "\<forall>l\<in>set ls. 10 \<notin> set l \<Longrightarrow> ls \<noteq> [] \<Longrightarrow>
     Suc (length (filter (\<lambda>c. c = 10) (py_join [10] ls))) = length ls"
proof (induction "[10::nat]" ls rule: py_join.induct)
  case 1
  then show ?case by simp
next
  case (2 x)
  then have "filter (\<lambda>c. c = 10) x = []" by (auto simp: filter_empty_conv)
  then show ?case by simp
next
  case (3 x y ys)
  then have "filter (\<lambda>c. c = 10) x = []" by (auto simp: filter_empty_conv)
  with 3 show ?case by simp
qed

lemma join_first: "ls \<noteq> [] \<Longrightarrow> \<exists>rest. py_join sep ls = hd ls @ rest"
  by (induction sep ls rule: py_join.induct) auto

lemma join_last: "ls \<noteq> [] \<Longrightarrow> \<exists>front. py_join sep ls = front @ last ls"
proof (induction sep ls rule: py_join.induct)
  case (3 sep x y ys)
  then obtain front where "py_join sep (y # ys) = front @ last (y # ys)" by auto
  then have "py_join sep (x # y # ys) = (x @ sep @ front) @ last (x # y # ys)" by simp
  then show ?case by blast
qed auto

lemma takeWhile_space_no_lf:
  assumes "\<exists>x\<in>set l. \<not> is_space x" and "10 \<notin> set l"
  shows "10 \<notin> set (takeWhile is_space (l @ rest))"
proof -
  have "takeWhile is_space (l @ rest) = takeWhile is_space l"
    using assms(1) by (auto simp: takeWhile_append1)
  then show ?thesis using assms(2) by (auto dest: set_takeWhileD)
qed

lemma strip_join_facts:
  assumes ne: "ls \<noteq> []"
    and nb: "\<forall>l\<in>set ls. \<not> blank_line l"
    and nl: "\<forall>l\<in>set ls. 10 \<notin> set l"
  shows "length (io_lines (py_strip (py_join [10] ls))) = length ls"
proof -
  let ?j = "py_join [10] ls"
  let ?A = "dropWhile is_space ?j"
  let ?t = "py_strip ?j"
  have sp10: "is_space 10" by (simp add: is_space_def)
  from ne have hd_in: "hd ls \<in> set ls" and last_in: "last ls \<in> set ls" by auto
  from nb hd_in obtain x where x: "x \<in> set (hd ls)" "\<not> is_space x"
    by (auto simp: blank_line_def list_all_iff)
  from nb last_in obtain y where y: "y \<in> set (last ls)" "\<not> is_space y"
    by (auto simp: blank_line_def list_all_iff)
  obtain rest where rest: "?j = hd ls @ rest" using join_first[OF ne] by blast
  obtain front where front: "?j = front @ last ls" using join_last[OF ne] by blast
  have lead: "10 \<notin> set (takeWhile is_space ?j)"
    unfolding rest using takeWhile_space_no_lf[of "hd ls" rest] x nl hd_in by blast
  have jx: "x \<in> set ?j" using rest x by simp
  have A_ne: "?A \<noteq> []" using jx x(2) by auto
  have A_hd: "\<not> is_space (hd ?A)" using A_ne by (rule hd_dropWhile)
  have A_hd_in: "hd ?A \<in> set (rev ?A)" using A_ne by simp
  have j_split: "?j = takeWhile is_space ?j @ ?A" by simp
  have "rev ?j = rev ?A @ rev (takeWhile is_space ?j)"
    by (subst j_split) (simp only: rev_append)
  then have "takeWhile is_space (rev ?j) = takeWhile is_space (rev ?A)"
    using A_hd A_hd_in by (auto simp: takeWhile_append1)
  moreover have "10 \<notin> set (takeWhile is_space (rev ?j))"
  proof -
    have "\<exists>x\<in>set (rev (last ls)). \<not> is_space x" using y by auto
    moreover have "10 \<notin> set (rev (last ls))" using nl last_in by auto
    ultimately have "10 \<notin> set (takeWhile is_space (rev (last ls) @ rev front))"
      by (rule takeWhile_space_no_lf)
    moreover have "rev ?j = rev (last ls) @ rev front" by (subst front) simp
    ultimately show ?thesis by simp
  qed
  ultimately have trail: "10 \<notin> set (takeWhile is_space (rev ?A))" by simp
  have t_def: "?t = rev (dropWhile is_space (rev ?A))" by (simp add: py_strip_def)
  have "rev ?A = takeWhile is_space (rev ?A) @ dropWhile is_space (rev ?A)" by simp
  then have "?A = ?t @ rev (takeWhile is_space (rev ?A))"
    unfolding t_def by (metis rev_append rev_rev_ident)
  then have j_parts: "?j = takeWhile is_space ?j @ ?t @ rev (takeWhile is_space (rev ?A))"
    using j_split by simp
  have f1: "filter (\<lambda>c. c = 10) (takeWhile is_space ?j) = []"
    using lead by (auto simp: filter_empty_conv)
  have f2: "filter (\<lambda>c. c = 10) (rev (takeWhile is_space (rev ?A))) = []"
    using trail by (auto simp: filter_empty_conv)
  have "filter (\<lambda>c. c = 10) ?j = filter (\<lambda>c. c = 10) ?t"
    by (subst j_parts) (simp only: filter_append f1 f2 append_Nil append_Nil2)
  then have cnt: "Suc (length (filter (\<lambda>c. c = 10) ?t)) = length ls"
    using filter_lf_join[OF nl ne] by simp
  have "dropWhile is_space (rev ?A) \<noteq> []" using A_hd A_hd_in by auto
  then have t_ne: "?t \<noteq> []" unfolding t_def by simp
  have "last ?t = hd (dropWhile is_space (rev ?A))"
    unfolding t_def using \<open>dropWhile is_space (rev ?A) \<noteq> []\<close> by (simp add: last_rev)
  then have "\<not> is_space (last ?t)"
    using hd_dropWhile[OF \<open>dropWhile is_space (rev ?A) \<noteq> []\<close>] by simp
  then have "last ?t \<noteq> 10" using sp10 by auto
  with t_ne cnt show ?thesis by (simp add: length_io_lines)
qed

lemma parse_response_Inr:
  assumes "parse_response body hi = Inr t"
  obtains block header_line units_line data_start where
    "re_search_pre body = Some block"
    "split_header (py_splitlines block) hi = Inr (header_line, units_line, data_start)"
    "py_strip (py_join [10] (select_data_lines (py_slice_from (py_splitlines block) data_start))) \<noteq> []"
    "t = \<lparr>columns = py_split header_line,
          rows = io_lines (py_strip (py_join [10]
                   (select_data_lines (py_slice_from (py_splitlines block) data_start)))),
          attrs = [''units'' \<mapsto> units_line]\<rparr>"
  using assms unfolding parse_response_def Let_def read_fwf_def
  by (auto split: option.splits sum.splits prod.splits if_splits)

lemma split_header_nat:
  "split_header lines (int h) =
     (if h < length lines
      then Inr (py_strip (lines ! h),
                (if h + 1 < length lines then py_strip (lines ! (h + 1)) else []),
                (if h + 2 < length lines \<and> re_match_separator (lines ! (h + 2))
                 then int h + 3 else int h + 2))
      else Inl IndexError)"
  unfolding split_header_def py_index_def Let_def
  by (auto simp: nat_add_distrib)

lemma slice_subset: "set (py_slice_from xs i) \<subseteq> set xs"
  unfolding py_slice_from_def Let_def by (meson set_drop_subset)

lemma select_subset: "set (select_data_lines ls) \<subseteq> set ls"
  unfolding select_data_lines_eq by (auto dest: set_takeWhileD)

lemma select_keeps: "l \<in> set (select_data_lines ls) \<Longrightarrow> \<not> blank_line l"
  unfolding select_data_lines_eq by auto

section \<open>The sample pages, evaluated\<close>

lemma sample_search: "re_search_pre sample_page = Some sample_block"
  by (simp add: sample_page_def sample_block_def lit_def match_pre_at_def lower_ascii_def)

lemma sample_splitlines: "py_splitlines sample_block = sample_lines"
  by (simp add: sample_block_def sample_lines_def lit_def is_linebreak_def)

lemma sample_split_header:
  "split_header sample_lines 2 = Inr (lit ''PRES   HGHT   TEMP'', lit ''hPa     m      C'', 5)"
  by (simp add: split_header_def py_index_def sample_lines_def lit_def py_strip_def
      is_space_def re_match_separator_def is_dash_def)

lemma sample_select:
  "select_data_lines (py_slice_from sample_lines 5) =
     [lit '' 1000.0     96   26.2'', lit ''  925.0    766   21.4'']"
  by (simp add: py_slice_from_def sample_lines_def select_data_lines_def truncate_at_stop_def
      has_stop_marker_def stop_markers_def keep_data_line_def py_strip_def
      re_match_separator_def lit_def is_space_def is_dash_def)

lemma sample_text:
  "py_strip (lit '' 1000.0     96   26.2'' @ 10 # lit ''  925.0    766   21.4'') =
     lit ''1000.0     96   26.2'' @ 10 # lit ''  925.0    766   21.4''"
  by (simp add: py_strip_def lit_def is_space_def)

lemma sample_rows:
  "io_lines (lit ''1000.0     96   26.2'' @ 10 # lit ''  925.0    766   21.4'') =
     [lit ''1000.0     96   26.2'', lit ''  925.0    766   21.4'']"
  by (simp add: lit_def)

lemma sample_columns: "py_split (lit ''PRES   HGHT   TEMP'') = [lit ''PRES'', lit ''HGHT'', lit ''TEMP'']"
  by (simp add: lit_def is_space_def)

lemma sample_parse: "parse_response sample_page 2 = Inr sample_table"
proof -
  show ?thesis
    unfolding parse_response_def
    by (simp add: Let_def sample_search sample_splitlines sample_split_header sample_select sample_text
        sample_rows sample_columns read_fwf_def sample_table_def)
qed

lemma sample_no_phrase:
  "\<not> py_in (lit ''Can't get'') sample_page \<and> \<not> py_in (lit ''No data available'') sample_page"
  by (simp add: sample_page_def sample_block_def lit_def)

lemma sample_long: "\<not> length (py_strip sample_page) < 200"
  by (simp add: sample_page_def sample_block_def lit_def py_strip_def is_space_def)

lemma sample_probe:
  "sounding_exists (page_server sample_page) url timeout log =
     ((True, Some \<lparr>status_code = 200, resp_text = sample_page\<rparr>), log @ [(url, timeout)])"
  by (simp add: sounding_exists_def requests_get_def page_server_def status_error_def
      sample_no_phrase sample_long)

lemma busy_search: "re_search_pre busy_page = Some busy_block"
  by (simp add: busy_page_def busy_block_def lit_def match_pre_at_def lower_ascii_def)

lemma busy_splitlines: "py_splitlines busy_block = [busy_block]"
  by (simp add: busy_block_def lit_def is_linebreak_def)

lemma busy_no_phrase:
  "\<not> py_in (lit ''Can't get'') busy_page \<and> \<not> py_in (lit ''No data available'') busy_page"
  by (simp add: busy_page_def busy_block_def lit_def)

lemma busy_long: "\<not> length (py_strip busy_page) < 200"
  by (simp add: busy_page_def busy_block_def lit_def py_strip_def is_space_def)

lemma busy_probe:
  "sounding_exists (page_server busy_page) url timeout log =
     ((True, Some \<lparr>status_code = 200, resp_text = busy_page\<rparr>), log @ [(url, timeout)])"
  by (simp add: sounding_exists_def requests_get_def page_server_def status_error_def
      busy_no_phrase busy_long)

lemma sample_length: "length sample_lines = 10"
  by (simp add: sample_lines_def)

lemma sample_nth:
  "sample_lines ! 2 = lit ''   PRES   HGHT   TEMP''"
  "sample_lines ! 3 = lit ''    hPa     m      C''"
  "sample_lines ! 4 = lit ''-----------------------------''"
  by (simp_all add: sample_lines_def)

lemma sample_units_differ: "lit ''hPa     m      C'' \<noteq> lit ''    hPa     m      C''"
  by (simp add: lit_def)

lemma busy_parse: "parse_response busy_page 2 = Inl IndexError"
  by (simp add: parse_response_def busy_search busy_splitlines split_header_def py_index_def)

section \<open>A status outside 2xx that is no error status\<close>


section \<open>The row count\<close>

text \<open>
  Claim C1. When parsing a response body succeeds, the table has one row per surviving
  data line: the number of rows is the number of lines that are neither blank nor a
  separator line, counted from the detected data start up to the first stop-marker line
  (exclusive) or the end of the preformatted block. The rows are the lines the reader of
  the table is given: the survivors joined by LF and stripped at both ends.
\<close>

theorem row_count:
  assumes "parse_response body header_idx = Inr t"
  shows "\<exists>block header_line units_line data_start.
           re_search_pre body = Some block \<and>
           split_header (py_splitlines block) header_idx = Inr (header_line, units_line, data_start) \<and>
           length (rows t) =
             length (filter (\<lambda>l. \<not> blank_line l \<and> \<not> dash_rule l)
                       (takeWhile (\<lambda>l. \<not> stop_line l)
                          (py_slice_from (py_splitlines block) data_start)))"
proof -
  from assms obtain block header_line units_line data_start where
    b: "re_search_pre body = Some block"
    and h: "split_header (py_splitlines block) header_idx = Inr (header_line, units_line, data_start)"
    and ne: "py_strip (py_join [10] (select_data_lines (py_slice_from (py_splitlines block) data_start))) \<noteq> []"
    and t: "t = \<lparr>columns = py_split header_line,
          rows = io_lines (py_strip (py_join [10]
                   (select_data_lines (py_slice_from (py_splitlines block) data_start)))),
          attrs = [''units'' \<mapsto> units_line]\<rparr>"
    by (rule parse_response_Inr)
  let ?ls = "select_data_lines (py_slice_from (py_splitlines block) data_start)"
  have ls_ne: "?ls \<noteq> []"
  proof
    assume "?ls = []"
    then have "py_strip (py_join [10] ?ls) = []" by (simp add: py_strip_def)
    with ne show False by simp
  qed
  have nb: "\<forall>l\<in>set ?ls. \<not> blank_line l"
    using select_keeps by blast
  have lb: "is_linebreak 10" by (simp add: is_linebreak_def)
  have nl: "\<forall>l\<in>set ?ls. 10 \<notin> set l"
  proof
    fix l
    assume "l \<in> set ?ls"
    then have "l \<in> set (py_slice_from (py_splitlines block) data_start)"
      using select_subset by (rule rev_subsetD)
    then have "l \<in> set (py_splitlines block)"
      using slice_subset by (rule rev_subsetD)
    then show "10 \<notin> set l"
      using splitlines_no_break[of l block 10] lb by blast
  qed
  have "rows t = io_lines (py_strip (py_join [10] ?ls))"
    by (subst t) simp
  then have "length (rows t) = length ?ls"
    using strip_join_facts[OF ls_ne nb nl] by (simp only:)
  then have "length (rows t) =
             length (filter (\<lambda>l. \<not> blank_line l \<and> \<not> dash_rule l)
                       (takeWhile (\<lambda>l. \<not> stop_line l)
                          (py_slice_from (py_splitlines block) data_start)))"
    by (simp only: select_data_lines_eq)
  with b h show ?thesis by (intro exI conjI)
qed

text \<open>The instance for C1: the sample page has two levels before the station information.\<close>

theorem row_count_witness:
  "parse_response sample_page 2 = Inr sample_table \<and>
   length (rows sample_table) = 2 \<and>
   (\<exists>block header_line units_line data_start.
      re_search_pre sample_page = Some block \<and>
      split_header (py_splitlines block) 2 = Inr (header_line, units_line, data_start) \<and>
      length (rows sample_table) =
        length (filter (\<lambda>l. \<not> blank_line l \<and> \<not> dash_rule l)
                  (takeWhile (\<lambda>l. \<not> stop_line l)
                     (py_slice_from (py_splitlines block) data_start))))"
  using row_count[OF sample_parse] sample_parse by (simp add: sample_table_def)

section \<open>Header line, units line and data start\<close>

text \<open>
  Claim C4, as amended. In a preformatted block with at least \<open>h + 1\<close> lines, \<open>h\<close> being the
  header index, the header line is line \<open>h\<close> stripped; the units line is line \<open>h + 1\<close>
  stripped when the block has one and the empty string otherwise; the data start at
  \<open>h + 2\<close>, and at \<open>h + 3\<close> if and only if line \<open>h + 2\<close> exists and consists of five or more
  dashes optionally surrounded by whitespace. (The claim as stated takes the units line
  as it stands; the code strips it.)
\<close>

theorem header_units_data_start:
  assumes "h < length (py_splitlines block)"
  shows "split_header (py_splitlines block) (int h) =
           Inr (py_strip (py_splitlines block ! h),
                (if h + 1 < length (py_splitlines block)
                 then py_strip (py_splitlines block ! (h + 1)) else []),
                (if h + 2 < length (py_splitlines block) \<and> dash_rule (py_splitlines block ! (h + 2))
                 then int h + 3 else int h + 2))"
  using assms by (simp add: split_header_nat re_match_separator_iff)

text \<open>The instance for C4: the block of the sample page, header index 2.\<close>

theorem header_units_data_start_witness:
  "2 < length (py_splitlines sample_block) \<and>
   dash_rule (py_splitlines sample_block ! 4) \<and>
   split_header (py_splitlines sample_block) (int 2) =
     Inr (py_strip (lit ''   PRES   HGHT   TEMP''), py_strip (lit ''    hPa     m      C''), 5)"
proof -
  have l: "2 < length (py_splitlines sample_block)"
    by (simp add: sample_splitlines sample_length)
  have d: "dash_rule (py_splitlines sample_block ! 4)"
    unfolding re_match_separator_iff[symmetric]
    by (simp add: sample_splitlines sample_nth re_match_separator_def lit_def is_space_def is_dash_def)
  from header_units_data_start[OF l] d l show ?thesis
    by (simp add: sample_splitlines sample_length sample_nth)
qed

text \<open>
  Where C4 as stated fails: the line after the header of the sample block starts with four
  spaces, and the units line the code computes does not.
\<close>

theorem units_line_is_stripped:
  "split_header (py_splitlines sample_block) 2 =
     Inr (lit ''PRES   HGHT   TEMP'', lit ''hPa     m      C'', 5) \<and>
   py_splitlines sample_block ! 3 = lit ''    hPa     m      C'' \<and>
   lit ''hPa     m      C'' \<noteq> py_splitlines sample_block ! 3"
  by (simp add: sample_splitlines sample_split_header sample_nth sample_units_differ)

section \<open>The units metadata\<close>

text \<open>
  Claim C7, as amended. After a successful parse with header index \<open>h\<close>, the entry
  \<^verbatim>\<open>attrs["units"]\<close> of the table is the line that follows the header line in the
  preformatted block with the whitespace at both ends removed, and the empty string when
  the block ends with the header line. (The claim as stated has the line character for
  character.)
\<close>

theorem units_metadata:
  assumes "parse_response body (int h) = Inr t"
  shows "\<exists>block. re_search_pre body = Some block \<and> h < length (py_splitlines block) \<and>
           attrs t ''units'' =
             Some (if h + 1 < length (py_splitlines block)
                   then py_strip (py_splitlines block ! (h + 1)) else [])"
proof -
  from assms obtain block header_line units_line data_start where
    b: "re_search_pre body = Some block"
    and h: "split_header (py_splitlines block) (int h) = Inr (header_line, units_line, data_start)"
    and t: "t = \<lparr>columns = py_split header_line,
          rows = io_lines (py_strip (py_join [10]
                   (select_data_lines (py_slice_from (py_splitlines block) data_start)))),
          attrs = [''units'' \<mapsto> units_line]\<rparr>"
    by (rule parse_response_Inr)
  from h have "h < length (py_splitlines block)"
    by (auto simp: split_header_nat split: if_splits)
  moreover from h have "units_line = (if h + 1 < length (py_splitlines block)
                   then py_strip (py_splitlines block ! (h + 1)) else [])"
    by (auto simp: split_header_nat split: if_splits)
  ultimately show ?thesis using b t by simp
qed

text \<open>The instance for C7: the sample page.\<close>

theorem units_metadata_witness:
  "parse_response sample_page (int 2) = Inr sample_table \<and>
   attrs sample_table ''units'' = Some (py_strip (py_splitlines sample_block ! 3))"
proof -
  have p: "parse_response sample_page (int 2) = Inr sample_table"
    using sample_parse by simp
  from units_metadata[OF p] p show ?thesis
    by (simp add: sample_search sample_length sample_splitlines)
qed

text \<open>
  Where C7 as stated fails: the whole call on the sample page returns a table whose units
  are not the line after the header as it stands in the block.
\<close>

theorem units_metadata_not_verbatim:
  "fst (get_wyoming_sounding (page_server sample_page) 2020 1 5 12 72672 (lit ''naconf'') 2 []) =
     Inr sample_table \<and>
   re_search_pre sample_page = Some sample_block \<and>
   py_splitlines sample_block ! 3 = lit ''    hPa     m      C'' \<and>
   attrs sample_table ''units'' = Some (lit ''hPa     m      C'') \<and>
   attrs sample_table ''units'' \<noteq> Some (py_splitlines sample_block ! 3)"
  by (simp add: get_wyoming_sounding_def sample_probe sample_parse sample_search
      sample_splitlines sample_nth sample_units_differ sample_table_def)

section \<open>The unguarded header access\<close>

text \<open>
  Claim C10. When the probe finds the response available and the first preformatted
  block of its text has \<open>header_idx\<close> lines or fewer, the call fails with the
  \<^verbatim>\<open>IndexError\<close> of the list access \<^verbatim>\<open>lines[header_idx]\<close>, which is none of the three
  \<^verbatim>\<open>ValueError\<close>s the module documents.
\<close>

theorem short_block_index_error:
  assumes "fst (sounding_exists srv (build_url year month day hour station region) 30 log) = (True, Some r)"
    and "re_search_pre (resp_text r) = Some block"
    and "int (length (py_splitlines block)) \<le> header_idx"
  shows "fst (get_wyoming_sounding srv year month day hour station region header_idx log) = Inl IndexError"
proof -
  from assms(3) have "py_index (py_splitlines block) header_idx = Inl IndexError"
    by (auto simp: py_index_def Let_def)
  then have "split_header (py_splitlines block) header_idx = Inl IndexError"
    by (simp add: split_header_def)
  with assms(2) have "parse_response (resp_text r) header_idx = Inl IndexError"
    by (simp add: parse_response_def)
  with assms(1) show ?thesis
    by (cases "sounding_exists srv (build_url year month day hour station region) 30 log")
       (auto simp: get_wyoming_sounding_def)
qed

text \<open>The instance for C10: a one-line block and header index 1.\<close>

theorem short_block_index_error_witness:
  "fst (sounding_exists (page_server busy_page) (build_url 2020 1 5 12 72672 (lit ''naconf'')) 30 []) =
     (True, Some \<lparr>status_code = 200, resp_text = busy_page\<rparr>) \<and>
   re_search_pre busy_page = Some busy_block \<and>
   int (length (py_splitlines busy_block)) \<le> 1 \<and>
   fst (get_wyoming_sounding (page_server busy_page) 2020 1 5 12 72672 (lit ''naconf'') 1 []) =
     Inl IndexError"
proof -
  have a: "fst (sounding_exists (page_server busy_page) (build_url 2020 1 5 12 72672 (lit ''naconf'')) 30 []) =
     (True, Some \<lparr>status_code = 200, resp_text = busy_page\<rparr>)"
    by (simp add: busy_probe)
  have b: "re_search_pre (resp_text \<lparr>status_code = 200, resp_text = busy_page\<rparr>) = Some busy_block"
    by (simp add: busy_search)
  have c: "int (length (py_splitlines busy_block)) \<le> 1"
    by (simp add: busy_splitlines)
  from short_block_index_error[OF a b c] a b c show ?thesis by simp
qed

text \<open>
  Claim C2 at the page with the one-line block and the default header index 2: the probe
  reports the sounding available, the page has a preformatted block, and no data line is
  left after truncation and filtering, which is the condition the documentation gives for
  \<^verbatim>\<open>ValueError("No data rows found.")\<close>; the call raises \<^verbatim>\<open>IndexError\<close> instead.
\<close>

theorem short_block_no_descriptive_error:
  "get_wyoming_sounding (page_server busy_page) 2020 1 5 12 72672 (lit ''naconf'') 2 [] =
     (Inl IndexError, [(build_url 2020 1 5 12 72672 (lit ''naconf''), 30)]) \<and>
   fst (fst (sounding_exists (page_server busy_page)
               (build_url 2020 1 5 12 72672 (lit ''naconf'')) 30 [])) \<and>
   re_search_pre busy_page = Some busy_block \<and>
   py_strip (py_join [10] (select_data_lines (py_slice_from (py_splitlines busy_block) 4))) = []"
  by (simp add: get_wyoming_sounding_def busy_probe busy_parse busy_search busy_splitlines
      py_slice_from_def select_data_lines_def truncate_at_stop_def py_strip_def)

section \<open>The table depends on the response text only\<close>

text \<open>
  Claim C9. Two runs that receive the same response text (and the same verdict of
  \<^verbatim>\<open>raise_for_status\<close>) and use the same header index return the same result, and so the
  same table: the same rows, column names and units. Nothing else enters: not the request
  parameters, not the requests issued before, not which server answered.
\<close>

theorem same_body_same_table:
  assumes "srv1 (length log1) (build_url y1 m1 d1 h1 s1 g1) 30 = Response r1"
    and "srv2 (length log2) (build_url y2 m2 d2 h2 s2 g2) 30 = Response r2"
    and "status_error r1 = status_error r2"
    and "resp_text r1 = resp_text r2"
  shows "fst (get_wyoming_sounding srv1 y1 m1 d1 h1 s1 g1 header_idx log1) =
         fst (get_wyoming_sounding srv2 y2 m2 d2 h2 s2 g2 header_idx log2)"
  using assms
  by (simp add: get_wyoming_sounding_def sounding_exists_def requests_get_def)

text \<open>The instance for C9: two different requests answered with the sample page.\<close>

theorem same_body_same_table_witness:
  "fst (get_wyoming_sounding (page_server sample_page) 2020 1 5 12 72672 (lit ''naconf'') 2 []) =
   fst (get_wyoming_sounding (page_server sample_page) 1999 12 31 0 3953 (lit ''europe'') 2
          [(lit ''earlier'', 30)])"
  by (rule same_body_same_table) (simp_all add: page_server_def status_error_def)

section \<open>The request URL\<close>

lemma digits_lt10: "n < 10 \<Longrightarrow> digits n = [48 + n]"
  by (simp add: digits.simps)

lemma digits_lt100: "10 \<le> n \<Longrightarrow> n < 100 \<Longrightarrow> digits n = [48 + n div 10, 48 + n mod 10]"
  by (subst digits.simps) (simp add: digits_lt10)

lemma digits_lt1000: "100 \<le> n \<Longrightarrow> n < 1000 \<Longrightarrow> digits n = [48 + n div 100, 48 + n div 10 mod 10, 48 + n mod 10]"
  by (subst digits.simps) (simp add: digits_lt100 div_mult2_eq[symmetric])

lemma digits_lt10000: "1000 \<le> n \<Longrightarrow> n < 10000 \<Longrightarrow>
   digits n = [48 + n div 1000, 48 + n div 100 mod 10, 48 + n div 10 mod 10, 48 + n mod 10]"
  by (subst digits.simps) (simp add: digits_lt1000 div_mult2_eq[symmetric])

lemma format_02d: "0 \<le> n \<Longrightarrow> n \<le> 99 \<Longrightarrow> py_format_0wd 2 n = two_digits n"
proof -
  assume a: "0 \<le> n" "n \<le> 99"
  show ?thesis
  proof (cases "nat n < 10")
    case True
    then show ?thesis using a by (simp add: py_format_0wd_def zero_fill_def two_digits_def digits_lt10)
  next
    case False
    then have "10 \<le> nat n" "nat n < 100" using a by auto
    then show ?thesis using a by (simp add: py_format_0wd_def zero_fill_def two_digits_def digits_lt100)
  qed
qed

lemma str_year: "1000 \<le> n \<Longrightarrow> n \<le> 9999 \<Longrightarrow> py_str_int n = four_digits n"
proof -
  assume a: "1000 \<le> n" "n \<le> 9999"
  then have "1000 \<le> nat n" "nat n < 10000" by auto
  then show ?thesis using a by (simp add: py_str_int_def four_digits_def digits_lt10000)
qed

lemma request_log: "snd (get_wyoming_sounding srv year month day hour station region header_idx log) =
   log @ [(build_url year month day hour station region, 30)]"
  unfolding get_wyoming_sounding_def sounding_exists_def requests_get_def
  by (auto split: get_result.splits option.splits)

text \<open>
  Claim C8, as amended. For a year from 1000 to 9999 and month, day and hour from 0 to 99,
  the call issues one GET request, to the archive endpoint with the query parameters
  region, the literal \<^verbatim>\<open>TYPE=TEXT%3ALIST\<close>, the year in four digits, the month in two digits,
  day and hour in two digits each, concatenated, as both \<^verbatim>\<open>FROM\<close> and \<^verbatim>\<open>TO\<close>, and the station
  number. (The year is written as it is, without padding: outside 1000 to 9999 it does
  not have four digits.)
\<close>

theorem request_url:
  assumes "1000 \<le> year" "year \<le> 9999" "0 \<le> month" "month \<le> 99"
    "0 \<le> day" "day \<le> 99" "0 \<le> hour" "hour \<le> 99"
  shows "snd (get_wyoming_sounding srv year month day hour station region header_idx log) =
           log @ [(build_url year month day hour station region, 30)] \<and>
         build_url year month day hour station region =
           lit ''https://weather.uwyo.edu/cgi-bin/sounding?'' @
           lit ''region='' @ region @
           lit ''&TYPE=TEXT%3ALIST'' @
           lit ''&YEAR='' @ four_digits year @
           lit ''&MONTH='' @ two_digits month @
           lit ''&FROM='' @ two_digits day @ two_digits hour @
           lit ''&TO='' @ two_digits day @ two_digits hour @
           lit ''&STNM='' @ py_str_int station"
  using assms
  by (simp add: request_log build_url_def Let_def format_02d str_year lit_def)

text \<open>The instance for C8: 5 January 2020, 12 UTC, station 72672, region naconf.\<close>

theorem request_url_witness:
  "snd (get_wyoming_sounding (page_server sample_page) 2020 1 5 12 72672 (lit ''naconf'') 2 []) =
     [(build_url 2020 1 5 12 72672 (lit ''naconf''), 30)] \<and>
   build_url 2020 1 5 12 72672 (lit ''naconf'') =
     lit ''https://weather.uwyo.edu/cgi-bin/sounding?region=naconf&TYPE=TEXT%3ALIST&YEAR=2020&MONTH=01&FROM=0512&TO=0512&STNM=72672''"
  using request_url[of 2020 1 5 12 "page_server sample_page" 72672 "lit ''naconf''" 2 "[]"]
  by (simp add: two_digits_def four_digits_def py_str_int_def digits.simps lit_def)

text \<open>Where C8 as stated fails: the year 999 is written with three digits.\<close>

theorem year_not_padded:
  "build_url 999 1 5 12 72672 (lit ''naconf'') =
     lit ''https://weather.uwyo.edu/cgi-bin/sounding?region=naconf&TYPE=TEXT%3ALIST&YEAR=999&MONTH=01&FROM=0512&TO=0512&STNM=72672'' \<and>
   build_url 999 1 5 12 72672 (lit ''naconf'') \<noteq>
     lit ''https://weather.uwyo.edu/cgi-bin/sounding?region=naconf&TYPE=TEXT%3ALIST&YEAR=0999&MONTH=01&FROM=0512&TO=0512&STNM=72672'' \<and>
   length (py_str_int 999) = 3"
  by (simp add: build_url_def Let_def py_format_0wd_def zero_fill_def py_str_int_def
      digits.simps lit_def)

end
